theory Spec2Isabelle
  imports Complex_Main
begin

section \<open>Python helpers used by the scraper\<close>

text \<open>
  Strings are lists of 8-bit characters, so the model covers ASCII text; Python's
  Unicode-aware behaviour of \<^verbatim>\<open>\d\<close>, \<^verbatim>\<open>str.isdigit\<close>, \<^verbatim>\<open>str.lower\<close>,
  \<^verbatim>\<open>int\<close> and \<^verbatim>\<open>float\<close> on non-ASCII digits and letters is outside it.
\<close>

datatype py_error = ValueError | ZeroDivisionError | RequestException | WebDriverException

text \<open>\<^verbatim>\<open>range(start, stop, step)\<close> for a positive step.\<close>

definition py_range :: "int \<Rightarrow> int \<Rightarrow> int \<Rightarrow> int list" where
  "py_range start stop step =
     map (\<lambda>j. start + step * int j) [0..<nat ((stop - start + step - 1) div step)]"

definition is_digit :: "char \<Rightarrow> bool" where
  "is_digit c = (c \<in> set ''0123456789'')"

definition digit_val :: "char \<Rightarrow> nat" where
  "digit_val c = of_char c - 48"

definition nat_of_digits :: "string \<Rightarrow> nat" where
  "nat_of_digits ds = foldl (\<lambda>a c. 10 * a + digit_val c) 0 ds"

text \<open>The characters \<^verbatim>\<open>str.strip()\<close>, \<^verbatim>\<open>int\<close> and \<^verbatim>\<open>float\<close> treat as white space (ASCII).\<close>

definition is_space :: "char \<Rightarrow> bool" where
  "is_space c = (c \<in> set [CHR 0x09, CHR 0x0A, CHR 0x0B, CHR 0x0C, CHR 0x0D,
                            CHR 0x1C, CHR 0x1D, CHR 0x1E, CHR 0x1F, CHR 0x20])"

definition py_strip :: "string \<Rightarrow> string" where
  "py_strip s = rev (dropWhile is_space (rev (dropWhile is_space s)))"

text \<open>\<^verbatim>\<open>str.lower()\<close> on ASCII letters.\<close>

definition lower_char :: "char \<Rightarrow> char" where
  "lower_char c =
     (case map_of (zip ''ABCDEFGHIJKLMNOPQRSTUVWXYZ'' ''abcdefghijklmnopqrstuvwxyz'') c of
        Some d \<Rightarrow> d | None \<Rightarrow> c)"

definition py_lower :: "string \<Rightarrow> string" where
  "py_lower s = map lower_char s"

text \<open>The substring test \<^verbatim>\<open>a in b\<close> on strings.\<close>

fun starts_with :: "string \<Rightarrow> string \<Rightarrow> bool" where
  "starts_with [] b = True"
| "starts_with (x # xs) [] = False"
| "starts_with (x # xs) (y # ys) = (x = y \<and> starts_with xs ys)"

fun py_in :: "string \<Rightarrow> string \<Rightarrow> bool" where
  "py_in a [] = (a = [])"
| "py_in a (c # cs) = (starts_with a (c # cs) \<or> py_in a cs)"

text \<open>
  The grammar of decimal literals shared by \<^verbatim>\<open>int(s)\<close> and \<^verbatim>\<open>float(s)\<close>:
  \<^verbatim>\<open>digitpart ::= digit (["_"] digit)*\<close>.
\<close>

fun digitpart :: "string \<Rightarrow> bool" where
  "digitpart [] = False"
| "digitpart [c] = is_digit c"
| "digitpart (c # d # cs) =
     (is_digit c \<and> (if d = CHR ''_'' then digitpart cs else digitpart (d # cs)))"

definition split_sign :: "string \<Rightarrow> bool \<times> string" where
  "split_sign s =
     (case s of
        [] \<Rightarrow> (False, [])
      | c # cs \<Rightarrow> if c = CHR ''-'' then (True, cs) else if c = CHR ''+'' then (False, cs)
                 else (False, s))"

text \<open>
  \<^verbatim>\<open>int(s)\<close> in base 10: white space stripped, an optional sign, a digitpart;
  anything else raises ValueError (here \<open>None\<close>).
\<close>

definition py_int :: "string \<Rightarrow> int option" where
  "py_int s =
     (let (neg, u) = split_sign (py_strip s) in
      if digitpart u
      then Some (let v = int (nat_of_digits (filter is_digit u)) in if neg then - v else v)
      else None)"

text \<open>
  \<^verbatim>\<open>float(s)\<close>. A float is \<open>Finite\<close> with its exact decimal value (rounding to the
  nearest binary64 number, overflow to infinity and the sign of zero are not modelled),
  an infinity or NaN. The grammar is Python's:
  \<^verbatim>\<open>[sign] (floatnumber | "inf" | "infinity" | "nan")\<close> with
  \<^verbatim>\<open>floatnumber ::= ([digitpart] "." digitpart | digitpart ["."]) [("e"|"E") [sign] digitpart]\<close>,
  the words in any letter case, white space stripped at both ends.
\<close>

datatype pyfloat = Finite real | PosInf | NegInf | NaN

definition parse_number :: "string \<Rightarrow> real option" where
  "parse_number m =
     (let ip = takeWhile (\<lambda>c. c \<noteq> CHR ''.'') m;
          rest = dropWhile (\<lambda>c. c \<noteq> CHR ''.'') m;
          fp = tl rest;
          ok = (if rest = [] then digitpart ip
                else (ip = [] \<and> digitpart fp) \<or> (digitpart ip \<and> (fp = [] \<or> digitpart fp)))
      in if ok
         then Some (real (nat_of_digits (filter is_digit ip @ filter is_digit fp))
                    / 10 ^ length (filter is_digit fp))
         else None)"

definition parse_exponent :: "string \<Rightarrow> int option" where
  "parse_exponent x =
     (let (neg, u) = split_sign x in
      if digitpart u
      then Some (let v = int (nat_of_digits (filter is_digit u)) in if neg then - v else v)
      else None)"

definition parse_floatnumber :: "string \<Rightarrow> real option" where
  "parse_floatnumber u =
     (let is_e = (\<lambda>c. c = CHR ''e'' \<or> c = CHR ''E'');
          m = takeWhile (\<lambda>c. \<not> is_e c) u;
          rest = dropWhile (\<lambda>c. \<not> is_e c) u
      in case parse_number m of
           None \<Rightarrow> None
         | Some v \<Rightarrow>
             if rest = [] then Some v
             else (case parse_exponent (tl rest) of
                     None \<Rightarrow> None
                   | Some e \<Rightarrow> Some (if 0 \<le> e then v * 10 ^ nat e else v / 10 ^ nat (- e))))"

definition py_float :: "string \<Rightarrow> py_error + pyfloat" where
  "py_float s =
     (let (neg, u) = split_sign (py_strip s) in
      if py_lower u = ''inf'' \<or> py_lower u = ''infinity''
      then Inr (if neg then NegInf else PosInf)
      else if py_lower u = ''nan'' then Inr NaN
      else (case parse_floatnumber u of
              None \<Rightarrow> Inl ValueError
            | Some v \<Rightarrow> Inr (Finite (if neg then - v else v))))"

text \<open>
  The token filter of the full-time odds (app.py, line 135):
  \<^verbatim>\<open>text.replace('.', '', 1).isdigit()\<close>: after the first point is removed, a
  non-empty string of digits.
\<close>

definition is_numeric_text :: "string \<Rightarrow> bool" where
  "is_numeric_text s = (let t = remove1 (CHR ''.'') s in t \<noteq> [] \<and> list_all is_digit t)"

text \<open>
  Regular expressions, as far as the timestamp pattern needs them: a sequence of atoms,
  each \<^verbatim>\<open>\d\<close> or a literal character. \<^verbatim>\<open>re.match\<close> matches at the start of the
  string and lets anything follow.
\<close>

datatype re_atom = Digit | Lit char

fun atom_matches :: "re_atom \<Rightarrow> char \<Rightarrow> bool" where
  "atom_matches Digit c = is_digit c"
| "atom_matches (Lit l) c = (c = l)"

fun re_match :: "re_atom list \<Rightarrow> string \<Rightarrow> bool" where
  "re_match [] s = True"
| "re_match (a # as) [] = False"
| "re_match (a # as) (c # cs) = (atom_matches a c \<and> re_match as cs)"

text \<open>The pattern \<^verbatim>\<open>\d{2}/\d{2}/\d{2} - \d{2}:\d{2}\<close> of app.py, line 125.\<close>

definition time_pattern :: "re_atom list" where
  "time_pattern =
     [Digit, Digit, Lit (CHR ''/''), Digit, Digit, Lit (CHR ''/''), Digit, Digit,
      Lit (CHR '' ''), Lit (CHR ''-''), Lit (CHR '' ''),
      Digit, Digit, Lit (CHR '':''), Digit, Digit]"

definition match_times_of :: "string list \<Rightarrow> string list" where
  "match_times_of raw_times = filter (re_match time_pattern) raw_times"

text \<open>
  The anchored reading of the specification, \<^verbatim>\<open>^\d{2}/\d{2}/\d{2} - \d{2}:\d{2}$\<close> with
  nothing before or after: the whole string is matched by the atoms.
\<close>

fun re_fullmatch :: "re_atom list \<Rightarrow> string \<Rightarrow> bool" where
  "re_fullmatch [] s = (s = [])"
| "re_fullmatch (a # as) [] = False"
| "re_fullmatch (a # as) (c # cs) = (atom_matches a c \<and> re_fullmatch as cs)"

section \<open>The data model\<close>

text \<open>
  A Match is the dictionary built in app.py, lines 153-176. A field that is \<^verbatim>\<open>None\<close> in
  Python is \<open>None\<close> here. The fields \<^verbatim>\<open>id\<close> and \<^verbatim>\<open>match\<close> carry a suffix.
\<close>

record 'f full_time_odds_t =
  home :: "'f option"
  draw :: "'f option"
  away :: "'f option"

record double_chance_t =
  dc_1X :: "pyfloat option"
  dc_X2 :: "pyfloat option"
  dc_12 :: "pyfloat option"

record over_under_t =
  over :: "pyfloat option"
  under :: "pyfloat option"

record btts_t =
  yes :: "pyfloat option"
  no :: "pyfloat option"

record match_data =
  id_m :: nat
  match_m :: string
  teams_m :: "string \<times> string"
  time_m :: string
  full_time_odds :: "pyfloat full_time_odds_t"
  double_chance :: double_chance_t
  over_under :: over_under_t
  btts :: btts_t

text \<open>
  The parsed page, seen through the selectors the scraper applies to it: the stripped
  texts (\<^verbatim>\<open>get_text(strip=True)\<close>) of the elements each selector finds, in document
  order. \<open>data_qa sel\<close> is \<^verbatim>\<open>div[data-qa="sel"] > div.ng-binding\<close>.
\<close>

record soup =
  event_team :: "string list"
  span_ng_binding :: "string list"
  event_selection :: "string list"
  data_qa :: "string \<Rightarrow> string list"

section \<open>The scraper: pairing team names (app.py, lines 119-121)\<close>

text \<open>
  \<^verbatim>\<open>team_pairs = [(teams[i], teams[i+1]) for i in range(0, len(teams) - 1, 2)]\<close> and
  \<^verbatim>\<open>matches = [f"{teams[i]} vs {teams[i+1]}" for i in range(0, len(teams) - 1, 2)]\<close>.
  The list reads are written with \<open>!\<close>; lemma \<open>team_index_in_range\<close> below shows that
  every index the comprehension produces is inside the list, so Python's IndexError
  branch is never taken.
\<close>

definition team_pairs_of :: "string list \<Rightarrow> (string \<times> string) list" where
  "team_pairs_of teams =
     map (\<lambda>i. (teams ! nat i, teams ! nat (i + 1))) (py_range 0 (int (length teams) - 1) 2)"

definition matches_of :: "string list \<Rightarrow> string list" where
  "matches_of teams =
     map (\<lambda>i. teams ! nat i @ '' vs '' @ teams ! nat (i + 1))
       (py_range 0 (int (length teams) - 1) 2)"

section \<open>The scraper: aligning the lists (app.py, lines 124-179)\<close>

text \<open>
  \<^verbatim>\<open>full_time_grouped = [full_time_raw[i:i+3] for i in range(0, len(full_time_raw), 3)]\<close>
\<close>

definition full_time_grouped_of :: "string list \<Rightarrow> string list list" where
  "full_time_grouped_of full_time_raw =
     map (\<lambda>i. take 3 (drop (nat i) full_time_raw)) (py_range 0 (int (length full_time_raw)) 3)"

text \<open>
  \<^verbatim>\<open>float(xs[i]) if i < len(xs) else None\<close>: the value, \<^verbatim>\<open>None\<close>, or the ValueError
  of \<^verbatim>\<open>float\<close>.
\<close>

definition float_at :: "string list \<Rightarrow> nat \<Rightarrow> py_error + pyfloat option" where
  "float_at xs i = (if i < length xs then map_sum id Some (py_float (xs ! i)) else Inr None)"

text \<open>\<^verbatim>\<open>float(g[i][j]) if i < len(g) and len(g[i]) >= j + 1 else None\<close>\<close>

definition grouped_float_at :: "string list list \<Rightarrow> nat \<Rightarrow> nat \<Rightarrow> py_error + pyfloat option" where
  "grouped_float_at g i j =
     (if i < length g \<and> j + 1 \<le> length (g ! i)
      then map_sum id Some (py_float (g ! i ! j)) else Inr None)"

text \<open>Sequencing of computations that may raise.\<close>

definition bind_err :: "py_error + 'a \<Rightarrow> ('a \<Rightarrow> py_error + 'b) \<Rightarrow> py_error + 'b" where
  "bind_err x f = (case x of Inl e \<Rightarrow> Inl e | Inr v \<Rightarrow> f v)"

text \<open>A loop that appends one record per index and stops at the first exception.\<close>

fun collect :: "(nat \<Rightarrow> py_error + 'a) \<Rightarrow> nat list \<Rightarrow> py_error + 'a list" where
  "collect f [] = Inr []"
| "collect f (i # is) =
     bind_err (f i) (\<lambda>m. bind_err (collect f is) (\<lambda>ms. Inr (m # ms)))"

text \<open>The lists the loop reads, in the order the source computes them.\<close>

definition matches :: "soup \<Rightarrow> string list" where
  "matches sp = matches_of (event_team sp)"

definition team_pairs :: "soup \<Rightarrow> (string \<times> string) list" where
  "team_pairs sp = team_pairs_of (event_team sp)"

definition match_times :: "soup \<Rightarrow> string list" where
  "match_times sp = match_times_of (span_ng_binding sp)"

definition full_time_grouped :: "soup \<Rightarrow> string list list" where
  "full_time_grouped sp = full_time_grouped_of (filter is_numeric_text (event_selection sp))"

definition dc_1x :: "soup \<Rightarrow> string list" where
  "dc_1x sp = data_qa sp ''prematch-event-selections-1x''"

definition dc_x2 :: "soup \<Rightarrow> string list" where
  "dc_x2 sp = data_qa sp ''prematch-event-selections-x2''"

definition dc_12s :: "soup \<Rightarrow> string list" where
  "dc_12s sp = data_qa sp ''prematch-event-selections-12''"

definition ou_over :: "soup \<Rightarrow> string list" where
  "ou_over sp = data_qa sp ''prematch-event-selections-over''"

definition ou_under :: "soup \<Rightarrow> string list" where
  "ou_under sp = data_qa sp ''prematch-event-selections-under''"

definition btts_yes :: "soup \<Rightarrow> string list" where
  "btts_yes sp = data_qa sp ''prematch-event-selections-yes''"

definition btts_no :: "soup \<Rightarrow> string list" where
  "btts_no sp = data_qa sp ''prematch-event-selections-no''"

text \<open>The dictionary of one loop iteration (lines 153-176), its fields evaluated in order.\<close>

definition match_data_at :: "soup \<Rightarrow> nat \<Rightarrow> py_error + match_data" where
  "match_data_at sp i =
     bind_err (grouped_float_at (full_time_grouped sp) i 0) (\<lambda>h.
     bind_err (grouped_float_at (full_time_grouped sp) i 1) (\<lambda>d.
     bind_err (grouped_float_at (full_time_grouped sp) i 2) (\<lambda>a.
     bind_err (float_at (dc_1x sp) i) (\<lambda>c1x.
     bind_err (float_at (dc_x2 sp) i) (\<lambda>cx2.
     bind_err (float_at (dc_12s sp) i) (\<lambda>c12.
     bind_err (float_at (ou_over sp) i) (\<lambda>ov.
     bind_err (float_at (ou_under sp) i) (\<lambda>un.
     bind_err (float_at (btts_yes sp) i) (\<lambda>y.
     bind_err (float_at (btts_no sp) i) (\<lambda>n.
       Inr \<lparr> id_m = i,
             match_m = matches sp ! i,
             teams_m = team_pairs sp ! i,
             time_m = (if i < length (match_times sp) then match_times sp ! i else []),
             full_time_odds = \<lparr> home = h, draw = d, away = a \<rparr>,
             double_chance = \<lparr> dc_1X = c1x, dc_X2 = cx2, dc_12 = c12 \<rparr>,
             over_under = \<lparr> over = ov, under = un \<rparr>,
             btts = \<lparr> yes = y, no = n \<rparr> \<rparr>))))))))))"

text \<open>
  \<^verbatim>\<open>min(len(matches), len(full_time_grouped), len(match_times))\<close>, the number of loop
  iterations.
\<close>

definition record_count :: "soup \<Rightarrow> nat" where
  "record_count sp =
     min (length (matches sp)) (min (length (full_time_grouped sp)) (length (match_times sp)))"

text \<open>
  Lines 118-179: the records of a parsed page, or the exception that leaves the loop.
  The reads \<^verbatim>\<open>matches[i]\<close> and \<^verbatim>\<open>team_pairs[i]\<close> are in range, \<open>i\<close> being below
  \<open>record_count\<close>.
\<close>

definition extract_matches :: "soup \<Rightarrow> py_error + match_data list" where
  "extract_matches sp = collect (match_data_at sp) [0..<record_count sp]"

section \<open>What the specification says of the secondary markets\<close>


text \<open>\<^verbatim>\<open>float\<close> accepts each of the first \<open>n\<close> entries of a list.\<close>

definition parses_upto :: "string list \<Rightarrow> nat \<Rightarrow> bool" where
  "parses_upto xs n = list_all (\<lambda>s. \<not> isl (py_float s)) (take n xs)"

text \<open>
  \<^verbatim>\<open>float\<close> accepts every secondary-market text the loop reads: the entries of the seven
  market lists at the indices below \<open>record_count\<close>.
\<close>

definition markets_parse :: "soup \<Rightarrow> bool" where
  "markets_parse sp =
     (parses_upto (dc_1x sp) (record_count sp) \<and>
      parses_upto (dc_x2 sp) (record_count sp) \<and>
      parses_upto (dc_12s sp) (record_count sp) \<and>
      parses_upto (ou_over sp) (record_count sp) \<and>
      parses_upto (ou_under sp) (record_count sp) \<and>
      parses_upto (btts_yes sp) (record_count sp) \<and>
      parses_upto (btts_no sp) (record_count sp))"

section \<open>The mock dataset (app.py, lines 186-220)\<close>

definition generate_mock_data :: "match_data list" where
  "generate_mock_data =
     [\<lparr> id_m = 0,
         match_m = ''Manchester United vs Liverpool'',
         teams_m = (''Manchester United'', ''Liverpool''),
         time_m = ''22/06/25 - 20:00'',
         full_time_odds = \<lparr> home = Some (Finite 2.45), draw = Some (Finite 3.40),
                             away = Some (Finite 2.85) \<rparr>,
         double_chance = \<lparr> dc_1X = Some (Finite 1.45), dc_X2 = Some (Finite 1.50),
                            dc_12 = Some (Finite 1.30) \<rparr>,
         over_under = \<lparr> over = Some (Finite 1.85), under = Some (Finite 1.95) \<rparr>,
         btts = \<lparr> yes = Some (Finite 1.70), no = Some (Finite 2.10) \<rparr> \<rparr>,
      \<lparr> id_m = 1,
         match_m = ''Arsenal vs Chelsea'',
         teams_m = (''Arsenal'', ''Chelsea''),
         time_m = ''23/06/25 - 15:30'',
         full_time_odds = \<lparr> home = Some (Finite 2.20), draw = Some (Finite 3.20),
                             away = Some (Finite 3.40) \<rparr>,
         double_chance = \<lparr> dc_1X = Some (Finite 1.35), dc_X2 = Some (Finite 1.65),
                            dc_12 = Some (Finite 1.40) \<rparr>,
         over_under = \<lparr> over = Some (Finite 1.90), under = Some (Finite 1.90) \<rparr>,
         btts = \<lparr> yes = Some (Finite 1.75), no = Some (Finite 2.05) \<rparr> \<rparr>,
      \<lparr> id_m = 2,
         match_m = ''Barcelona vs Real Madrid'',
         teams_m = (''Barcelona'', ''Real Madrid''),
         time_m = ''24/06/25 - 21:00'',
         full_time_odds = \<lparr> home = Some (Finite 2.30), draw = Some (Finite 3.50),
                             away = Some (Finite 2.90) \<rparr>,
         double_chance = \<lparr> dc_1X = Some (Finite 1.40), dc_X2 = Some (Finite 1.55),
                            dc_12 = Some (Finite 1.30) \<rparr>,
         over_under = \<lparr> over = Some (Finite 1.80), under = Some (Finite 2.00) \<rparr>,
         btts = \<lparr> yes = Some (Finite 1.65), no = Some (Finite 2.20) \<rparr> \<rparr>]"

section \<open>Fetching and the fallback (app.py, lines 77-184)\<close>

text \<open>
  What one call of \<^verbatim>\<open>scrape_sportpesa\<close> meets outside the program: whether the Selenium
  import succeeded, the variable \<^verbatim>\<open>RUNNING_IN_CLOUD\<close> (\<open>None\<close> when unset), and the
  outcome of each way of loading the page, were it run: the parsed page or the
  exception raised.
\<close>

record env =
  selenium_available :: bool
  running_in_cloud :: "string option"
  selenium_page :: "py_error + soup"
  requests_page :: "py_error + soup"

text \<open>
  \<^verbatim>\<open>SELENIUM_AVAILABLE and os.environ.get('RUNNING_IN_CLOUD', 'false').lower() != 'true'\<close>
\<close>

definition use_selenium :: "env \<Rightarrow> bool" where
  "use_selenium e =
     (selenium_available e \<and>
      py_lower (case running_in_cloud e of None \<Rightarrow> ''false'' | Some v \<Rightarrow> v) \<noteq> ''true'')"

text \<open>The block under \<^verbatim>\<open>if not use_selenium:\<close> (lines 110-179).\<close>

definition scrape_with_requests :: "env \<Rightarrow> py_error + match_data list" where
  "scrape_with_requests e = bind_err (requests_page e) extract_matches"

text \<open>
  The body of \<^verbatim>\<open>scrape_sportpesa\<close> up to the handler. As the file is indented, the
  extraction and its \<^verbatim>\<open>return results\<close> stand inside \<^verbatim>\<open>if not use_selenium:\<close>. So
  when the browser loads the page, \<^verbatim>\<open>use_selenium\<close> stays true, that block is skipped
  and the function ends without a \<^verbatim>\<open>return\<close>: its value is Python's \<^verbatim>\<open>None\<close>, here
  \<open>Inr None\<close>. When the browser fails, its handler (lines 106-108) sets
  \<^verbatim>\<open>use_selenium = False\<close> and the requests block runs.
\<close>

definition scrape_body :: "env \<Rightarrow> py_error + match_data list option" where
  "scrape_body e =
     (if use_selenium e
      then (case selenium_page e of
              Inr sp \<Rightarrow> Inr None
            | Inl err \<Rightarrow> map_sum id Some (scrape_with_requests e))
      else map_sum id Some (scrape_with_requests e))"

text \<open>
  The handler \<^verbatim>\<open>except Exception\<close> of lines 181-184 returns the mock dataset. The file
  has no \<^verbatim>\<open>try:\<close> line for it; the model takes it to guard the body above, the only
  placement at its indentation.
\<close>

definition scrape_sportpesa :: "env \<Rightarrow> match_data list option" where
  "scrape_sportpesa e =
     (case scrape_body e of Inl err \<Rightarrow> Some generate_mock_data | Inr r \<Rightarrow> r)"

section \<open>The endpoints (app.py, lines 29-57)\<close>

datatype json = JMatches "match_data list" | JMatch match_data | JNull | JError string

type_synonym response = "json \<times> nat"

definition not_found :: response where
  "not_found = (JError ''Match not found'', 404)"


text \<open>
  \<^verbatim>\<open>get_match_odds\<close>. On \<^verbatim>\<open>None\<close> both \<^verbatim>\<open>len(odds_data)\<close> and the loop over
  \<^verbatim>\<open>odds_data\<close> raise a TypeError, which the outer handler answers with 500 and the
  exception's text.
\<close>

definition quote :: string where
  "quote = [CHR 0x27]"

definition get_match_odds :: "env \<Rightarrow> string \<Rightarrow> response" where
  "get_match_odds e match_id =
     (case scrape_sportpesa e of
        None \<Rightarrow>
          (case py_int match_id of
             Some k \<Rightarrow>
               (JError (''object of type '' @ quote @ ''NoneType'' @ quote @ '' has no len()''), 500)
           | None \<Rightarrow>
               (JError (quote @ ''NoneType'' @ quote @ '' object is not iterable''), 500))
      | Some odds_data \<Rightarrow>
          (case py_int match_id of
             Some k \<Rightarrow>
               if 0 \<le> k \<and> k < int (length odds_data)
               then (JMatch (odds_data ! nat k), 200)
               else not_found
           | None \<Rightarrow>
               (case find (\<lambda>m. py_in (py_lower match_id) (py_lower (match_m m))) odds_data of
                  Some m \<Rightarrow> (JMatch m, 200)
                | None \<Rightarrow> not_found)))"

section \<open>The predictor (ml_predictions.py)\<close>

















section \<open>Example inputs\<close>

text \<open>
  Pages and environments used below to run the model: a page with three team names,
  two timestamps among the span texts and one full-time triple; the same page with an
  empty cell in the double-chance 1X market; a page on which the team selector finds
  nothing; a cloud deployment that receives a given page; and a machine where the
  browser and the HTTP request both fail.
\<close>

definition example_page :: soup where
  "example_page =
     \<lparr> event_team = [''Gor Mahia'', ''AFC Leopards'', ''Tusker''],
       span_ng_binding = [''Football'', ''22/06/25 - 20:00'', ''23/06/25 - 15:30''],
       event_selection = [''2.45'', ''3.40'', ''2.85'', ''Draw''],
       data_qa = (\<lambda>sel. if sel = ''prematch-event-selections-1x'' then [''1.45'']
                        else if sel = ''prematch-event-selections-over'' then [''1.85'', ''1.90'']
                        else []) \<rparr>"



definition cloud_env :: "soup \<Rightarrow> env" where
  "cloud_env sp =
     \<lparr> selenium_available = False, running_in_cloud = Some ''true'',
       selenium_page = Inl WebDriverException, requests_page = Inr sp \<rparr>"





section \<open>Properties of the pairing\<close>

lemma length_py_range_teams: "length (py_range 0 (int n - 1) 2) = n div 2"
  by (simp add: py_range_def)

lemma nth_py_range: "i < length (py_range start stop step) \<Longrightarrow>
    py_range start stop step ! i = start + step * int i"
  by (simp add: py_range_def)

lemma team_index_in_range:
  "i \<in> set (py_range 0 (int (length teams) - 1) 2) \<Longrightarrow> 0 \<le> i \<and> nat (i + 1) < length teams"
  by (auto simp: py_range_def)

lemma length_team_pairs_of: "length (team_pairs_of teams) = length teams div 2"
  by (simp add: team_pairs_of_def length_py_range_teams)


lemma nth_team_pairs_of:
  assumes "i < length teams div 2"
  shows "team_pairs_of teams ! i = (teams ! (2 * i), teams ! (2 * i + 1))"
proof -
  have len: "i < length (py_range 0 (int (length teams) - 1) 2)"
    using assms by (simp add: length_py_range_teams)
  have "team_pairs_of teams ! i =
      (\<lambda>i. (teams ! nat i, teams ! nat (i + 1))) (py_range 0 (int (length teams) - 1) 2 ! i)"
    unfolding team_pairs_of_def using len by (rule nth_map)
  also have "py_range 0 (int (length teams) - 1) 2 ! i = 2 * int i"
    using nth_py_range [OF len] by simp
  finally show ?thesis by (simp add: nat_add_distrib nat_mult_distrib)
qed

text \<open>
  C8. When team-name extraction yields \<open>2k\<close> or \<open>2k+1\<close> elements, the aligner produces
  exactly \<open>k\<close> pairs; pair \<open>i\<close> is (element \<open>2i\<close>, element \<open>2i+1\<close>), both inside the
  extracted sequence, so the trailing element of an odd-length sequence is in no pair.
\<close>

theorem team_pairs_count_and_content:
  assumes "length teams = 2 * k \<or> length teams = 2 * k + 1"
  shows "length (team_pairs_of teams) = k \<and>
         (\<forall>i<k. team_pairs_of teams ! i = (teams ! (2 * i), teams ! (2 * i + 1)) \<and>
                 2 * i + 1 < length teams)"
proof -
  have k: "length teams div 2 = k" using assms by auto
  show ?thesis
    using k nth_team_pairs_of [of _ teams] by (auto simp: length_team_pairs_of)
qed

theorem team_pairs_count_and_content_witness:
  "length [''A'', ''B'', ''C''] = 2 * 1 + 1 \<and>
   length (team_pairs_of [''A'', ''B'', ''C'']) = 1 \<and>
   team_pairs_of [''A'', ''B'', ''C''] ! 0 = (''A'', ''B'')"
proof -
  have h: "length [''A'', ''B'', ''C''] = 2 * 1 \<or> length [''A'', ''B'', ''C''] = 2 * 1 + 1"
    by simp
  show ?thesis
    using team_pairs_count_and_content [OF h] by simp
qed

section \<open>Tokens that pass the numeric filter always parse\<close>


lemma digit_cases:
  "is_digit c \<longleftrightarrow> c = CHR ''0'' \<or> c = CHR ''1'' \<or> c = CHR ''2'' \<or> c = CHR ''3'' \<or> c = CHR ''4'' \<or>
     c = CHR ''5'' \<or> c = CHR ''6'' \<or> c = CHR ''7'' \<or> c = CHR ''8'' \<or> c = CHR ''9''"
  by (simp add: is_digit_def)

lemma digit_not_underscore: "is_digit c \<Longrightarrow> c \<noteq> CHR ''_''"
  unfolding digit_cases by (elim disjE) simp_all

lemma numeric_char_space: "is_digit c \<or> c = CHR ''.'' \<Longrightarrow> \<not> is_space c"
  unfolding digit_cases by (elim disjE) (simp_all add: is_space_def)

lemma numeric_char_lower: "is_digit c \<or> c = CHR ''.'' \<Longrightarrow> lower_char c = c"
  unfolding digit_cases by (elim disjE) (simp_all add: lower_char_def)

lemma numeric_char_other:
  assumes "is_digit c \<or> c = CHR ''.''"
  shows "c \<noteq> CHR ''-''" and "c \<noteq> CHR ''+''"
    and "c \<noteq> CHR ''e''" and "c \<noteq> CHR ''E''" and "c \<noteq> CHR ''i''" and "c \<noteq> CHR ''n''"
  using assms unfolding digit_cases by (elim disjE; simp)+

lemma digitpart_all_digits: "xs \<noteq> [] \<Longrightarrow> list_all is_digit xs \<Longrightarrow> digitpart xs"
proof (induction xs rule: digitpart.induct)
  case 1
  then show ?case by simp
next
  case (2 c)
  then show ?case by simp
next
  case (3 c d cs)
  then have "d \<noteq> CHR ''_''" by (simp add: digit_not_underscore)
  with 3 show ?case by simp
qed

lemma py_strip_plain:
  assumes "s \<noteq> []" and "\<not> is_space (hd s)" and "\<not> is_space (last s)"
  shows "py_strip s = s"
proof -
  have a: "dropWhile is_space s = s"
    using assms by (cases s) simp_all
  have "rev s \<noteq> []" and "\<not> is_space (hd (rev s))"
    using assms by (simp_all add: hd_rev)
  then have "dropWhile is_space (rev s) = rev s"
    by (cases "rev s") simp_all
  with a show ?thesis by (simp add: py_strip_def)
qed

lemma parse_number_numeric:
  assumes "is_numeric_text s"
  shows "\<exists>v. parse_number s = Some v"
proof (cases "CHR ''.'' \<in> set s")
  case False
  then have r: "remove1 (CHR ''.'') s = s" by (simp add: remove1_idem)
  have tw: "takeWhile (\<lambda>c. c \<noteq> CHR ''.'') s = s"
    using False by (simp add: takeWhile_eq_all_conv) blast
  have dw: "dropWhile (\<lambda>c. c \<noteq> CHR ''.'') s = []"
    using False by simp blast
  have "digitpart s"
    using assms r by (simp add: is_numeric_text_def Let_def digitpart_all_digits)
  then show ?thesis by (simp add: parse_number_def tw dw)
next
  case True
  then obtain a b where s: "s = a @ CHR ''.'' # b" and a: "CHR ''.'' \<notin> set a"
    using split_list_first [of "CHR ''.''" s] by blast
  have r: "remove1 (CHR ''.'') s = a @ b"
    using s a by (simp add: remove1_append)
  have an: "\<And>x. x \<in> set a \<Longrightarrow> x \<noteq> CHR ''.''"
    using a by blast
  have tw: "takeWhile (\<lambda>c. c \<noteq> CHR ''.'') s = a"
    unfolding s using an by (simp add: takeWhile_append2)
  have dw: "dropWhile (\<lambda>c. c \<noteq> CHR ''.'') s = CHR ''.'' # b"
    unfolding s using an by (simp add: dropWhile_append2)
  have ab: "a @ b \<noteq> []" "list_all is_digit a" "list_all is_digit b"
    using assms r by (simp_all add: is_numeric_text_def Let_def)
  have da: "a \<noteq> [] \<Longrightarrow> digitpart a" and db: "b \<noteq> [] \<Longrightarrow> digitpart b"
    using ab by (simp_all add: digitpart_all_digits)
  have "(a = [] \<and> digitpart b) \<or> (digitpart a \<and> (b = [] \<or> digitpart b))"
    using ab(1) da db by (cases "a = []"; cases "b = []") simp_all
  then show ?thesis
    unfolding parse_number_def tw dw Let_def by (simp del: digitpart.simps)
qed

lemma numeric_text_chars:
  assumes "is_numeric_text s"
  shows "s \<noteq> []" and "\<And>c. c \<in> set s \<Longrightarrow> is_digit c \<or> c = CHR ''.''"
proof -
  show "s \<noteq> []" using assms by (auto simp: is_numeric_text_def Let_def)
  fix c assume c: "c \<in> set s"
  show "is_digit c \<or> c = CHR ''.''"
  proof (cases "c = CHR ''.''")
    case False
    then have "c \<in> set (remove1 (CHR ''.'') s)" using c by simp
    moreover have "list_all is_digit (remove1 (CHR ''.'') s)"
      using assms by (simp add: is_numeric_text_def Let_def)
    ultimately show ?thesis by (simp add: list_all_iff)
  qed simp
qed

lemma py_float_numeric:
  assumes "is_numeric_text s"
  shows "\<exists>v. py_float s = Inr (Finite v)"
proof -
  note ch = numeric_text_chars [OF assms]
  have hd: "is_digit (hd s) \<or> hd s = CHR ''.''" and lst: "is_digit (last s) \<or> last s = CHR ''.''"
    using ch by simp_all
  have strip: "py_strip s = s"
    using ch(1) numeric_char_space [OF hd] numeric_char_space [OF lst]
    by (rule py_strip_plain)
  have sign: "split_sign s = (False, s)"
    using ch(1) numeric_char_other(1,2) [OF hd] by (cases s) (simp_all add: split_sign_def)
  have low: "py_lower s = s"
    unfolding py_lower_def using ch(2) numeric_char_lower by (simp add: map_idI)
  have w1: "s \<noteq> ''inf''"
  proof
    assume "s = ''inf''"
    then have "hd s = CHR ''i''" by simp
    then show False using numeric_char_other(5) [OF hd] by simp
  qed
  have w2: "s \<noteq> ''infinity''"
  proof
    assume "s = ''infinity''"
    then have "hd s = CHR ''i''" by simp
    then show False using numeric_char_other(5) [OF hd] by simp
  qed
  have w3: "s \<noteq> ''nan''"
  proof
    assume "s = ''nan''"
    then have "hd s = CHR ''n''" by simp
    then show False using numeric_char_other(6) [OF hd] by simp
  qed
  have noe: "\<And>c. c \<in> set s \<Longrightarrow> \<not> (c = CHR ''e'' \<or> c = CHR ''E'')"
    using ch(2) numeric_char_other(3,4) by blast
  have tw: "takeWhile (\<lambda>c. c \<noteq> CHR ''e'' \<and> c \<noteq> CHR ''E'') s = s"
    using noe by (simp add: takeWhile_eq_all_conv)
  have dw: "dropWhile (\<lambda>c. c \<noteq> CHR ''e'' \<and> c \<noteq> CHR ''E'') s = []"
    using noe by simp
  obtain v where v: "parse_number s = Some v"
    using parse_number_numeric [OF assms] by blast
  have "parse_floatnumber s = Some v"
    by (simp add: parse_floatnumber_def Let_def tw dw v)
  then show ?thesis
    using w1 w2 w3 by (simp add: py_float_def strip sign low)
qed

section \<open>The loop over the aligned lists\<close>

lemma bind_err_Inr_iff: "bind_err x f = Inr y \<longleftrightarrow> (\<exists>v. x = Inr v \<and> f v = Inr y)"
  by (cases x) (simp_all add: bind_err_def)

lemma collect_Inr_iff:
  "collect f is = Inr ms \<longleftrightarrow>
     length ms = length is \<and> (\<forall>k<length is. f (is ! k) = Inr (ms ! k))"
proof (induction "is" arbitrary: ms)
  case Nil
  then show ?case by auto
next
  case (Cons i "is")
  show ?case
  proof (cases ms)
    case Nil
    then show ?thesis by (auto simp: bind_err_Inr_iff)
  next
    case (Cons m ms')
    then show ?thesis
      using Cons.IH [of ms']
      by (auto simp: bind_err_Inr_iff nth_Cons split: nat.splits)
  qed
qed


lemma collect_returns:
  "(\<And>i. i \<in> set is \<Longrightarrow> \<exists>m. f i = Inr m) \<Longrightarrow> \<exists>ms. collect f is = Inr ms"
proof (induction "is")
  case Nil
  then show ?case by simp
next
  case (Cons i "is")
  then obtain m where "f i = Inr m" by force
  moreover obtain ms where "collect f is = Inr ms" using Cons by force
  ultimately show ?case by (simp add: bind_err_def)
qed

lemma match_data_at_Inr:
  assumes "match_data_at sp i = Inr m"
  shows "id_m m = i"
    and "float_at (dc_1x sp) i = Inr (dc_1X (double_chance m))"
    and "float_at (dc_x2 sp) i = Inr (dc_X2 (double_chance m))"
    and "float_at (dc_12s sp) i = Inr (dc_12 (double_chance m))"
    and "float_at (ou_over sp) i = Inr (over (over_under m))"
    and "float_at (ou_under sp) i = Inr (under (over_under m))"
    and "float_at (btts_yes sp) i = Inr (yes (btts m))"
    and "float_at (btts_no sp) i = Inr (no (btts m))"
  using assms unfolding match_data_at_def bind_err_Inr_iff by auto


lemma parses_upto_nth:
  "parses_upto xs n \<Longrightarrow> i < n \<Longrightarrow> i < length xs \<Longrightarrow> \<exists>v. py_float (xs ! i) = Inr v"
proof -
  assume a: "parses_upto xs n" and i: "i < n" "i < length xs"
  have "xs ! i \<in> set (take n xs)"
    using i by (metis length_take min_less_iff_conj nth_mem nth_take)
  then have "\<not> isl (py_float (xs ! i))"
    using a by (simp add: parses_upto_def list_all_iff)
  then show ?thesis by (cases "py_float (xs ! i)") simp_all
qed


lemma float_at_returns:
  "parses_upto xs n \<Longrightarrow> i < n \<Longrightarrow> \<exists>fld. float_at xs i = Inr fld"
  using parses_upto_nth [of xs n i] by (auto simp: float_at_def)


lemma full_time_group_numeric:
  assumes "i < length (full_time_grouped sp)" and "j < length (full_time_grouped sp ! i)"
  shows "is_numeric_text (full_time_grouped sp ! i ! j)"
proof -
  let ?raw = "filter is_numeric_text (event_selection sp)"
  have "full_time_grouped sp ! i
          = take 3 (drop (nat (py_range 0 (int (length ?raw)) 3 ! i)) ?raw)"
    using assms(1) by (simp add: full_time_grouped_def full_time_grouped_of_def)
  then have "set (full_time_grouped sp ! i) \<subseteq> set ?raw"
    by (metis set_drop_subset set_take_subset subset_trans)
  moreover have "full_time_grouped sp ! i ! j \<in> set (full_time_grouped sp ! i)"
    using assms(2) by simp
  ultimately show ?thesis by auto
qed

lemma grouped_float_at_returns:
  "\<exists>fld. grouped_float_at (full_time_grouped sp) i j = Inr fld"
proof (cases "i < length (full_time_grouped sp) \<and> j + 1 \<le> length (full_time_grouped sp ! i)")
  case True
  then have "is_numeric_text (full_time_grouped sp ! i ! j)"
    by (simp add: full_time_group_numeric)
  then obtain v where "py_float (full_time_grouped sp ! i ! j) = Inr (Finite v)"
    using py_float_numeric by blast
  then show ?thesis using True by (simp add: grouped_float_at_def)
next
  case False
  then show ?thesis by (auto simp: grouped_float_at_def)
qed

lemma match_data_at_returns:
  assumes "markets_parse sp" and "i < record_count sp"
  shows "\<exists>m. match_data_at sp i = Inr m"
proof -
  obtain h d a where g:
    "grouped_float_at (full_time_grouped sp) i 0 = Inr h"
    "grouped_float_at (full_time_grouped sp) i (Suc 0) = Inr d"
    "grouped_float_at (full_time_grouped sp) i 2 = Inr a"
    using grouped_float_at_returns by metis
  obtain c1 c2 c3 c4 c5 c6 c7 where f:
    "float_at (dc_1x sp) i = Inr c1" "float_at (dc_x2 sp) i = Inr c2"
    "float_at (dc_12s sp) i = Inr c3" "float_at (ou_over sp) i = Inr c4"
    "float_at (ou_under sp) i = Inr c5" "float_at (btts_yes sp) i = Inr c6"
    "float_at (btts_no sp) i = Inr c7"
    using assms float_at_returns unfolding markets_parse_def by metis
  show ?thesis
    by (simp add: match_data_at_def bind_err_def g f)
qed






lemma extract_matches_returns:
  assumes "markets_parse sp"
  shows "\<exists>ms. extract_matches sp = Inr ms"
  unfolding extract_matches_def
  using assms by (intro collect_returns match_data_at_returns) simp_all

lemma extract_matches_Inr:
  assumes "extract_matches sp = Inr ms"
  shows "length ms = record_count sp"
    and "i < record_count sp \<Longrightarrow> match_data_at sp i = Inr (ms ! i)"
  using assms unfolding extract_matches_def collect_Inr_iff by simp_all




section \<open>Running the model on the example pages\<close>


lemmas float_eval =
  py_float_def py_strip_def is_space_def split_sign_def py_lower_def lower_char_def
  parse_floatnumber_def parse_number_def parse_exponent_def is_digit_def nat_of_digits_def
  digit_val_def Let_def

lemmas page_eval =
  record_count_def matches_def matches_of_def team_pairs_def team_pairs_of_def py_range_def
  full_time_grouped_def full_time_grouped_of_def match_times_def match_times_of_def
  time_pattern_def is_numeric_text_def dc_1x_def dc_x2_def dc_12s_def ou_over_def
  ou_under_def btts_yes_def btts_no_def

lemma record_count_example_page: "record_count example_page = 1"
  by (simp add: example_page_def page_eval is_digit_def)


lemma markets_parse_example_page: "markets_parse example_page"
  unfolding markets_parse_def record_count_example_page parses_upto_def
  by (simp add: example_page_def page_eval float_eval)



lemma scrape_cloud_env:
  "scrape_sportpesa (cloud_env sp) =
     (case extract_matches sp of Inl e \<Rightarrow> Some generate_mock_data | Inr ms \<Rightarrow> Some ms)"
  by (cases "extract_matches sp")
    (simp_all add: scrape_sportpesa_def scrape_body_def use_selenium_def cloud_env_def
      scrape_with_requests_def bind_err_def)



section \<open>The timestamp filter\<close>

lemma re_match_prefix:
  "re_match as s \<longleftrightarrow> (\<exists>p rest. s = p @ rest \<and> re_fullmatch as p)"
proof (induction as s rule: re_match.induct)
  case (1 s)
  then show ?case by simp
next
  case (2 a as)
  then show ?case by simp
next
  case (3 a as c cs)
  show ?case
  proof
    assume "re_match (a # as) (c # cs)"
    then have a: "atom_matches a c" and "re_match as cs" by simp_all
    then obtain p rest where "cs = p @ rest" "re_fullmatch as p" using 3 by blast
    then have "c # cs = (c # p) @ rest \<and> re_fullmatch (a # as) (c # p)" using a by simp
    then show "\<exists>p rest. c # cs = p @ rest \<and> re_fullmatch (a # as) p" by blast
  next
    assume "\<exists>p rest. c # cs = p @ rest \<and> re_fullmatch (a # as) p"
    then obtain p rest where p: "c # cs = p @ rest" "re_fullmatch (a # as) p" by blast
    then obtain p' where p': "p = c # p'" by (cases p) auto
    then have "cs = p' @ rest" "atom_matches a c" "re_fullmatch as p'" using p by simp_all
    then show "re_match (a # as) (c # cs)" using 3 by auto
  qed
qed

text \<open>
  C2 (as amended). A candidate is kept by the timestamp filter if and only if it
  begins with text of the shape \<^verbatim>\<open>DD/MM/YY - HH:MM\<close>: the pattern is anchored at the
  start of the string only, and anything may follow it.
\<close>

theorem match_times_prefix:
  "t \<in> set (match_times_of raw_times) \<longleftrightarrow>
     t \<in> set raw_times \<and> (\<exists>p rest. t = p @ rest \<and> re_fullmatch time_pattern p)"
  by (simp add: match_times_of_def re_match_prefix)

theorem match_times_anchored_counterexample:
  "''22/06/25 - 20:00 EAT'' \<in> set (match_times_of [''22/06/25 - 20:00 EAT'']) \<and>
   \<not> re_fullmatch time_pattern ''22/06/25 - 20:00 EAT''"
  by (simp add: match_times_of_def time_pattern_def is_digit_def)

section \<open>Ids\<close>

lemma mock_ids: "map id_m generate_mock_data = [0, 1, 2]"
  by (simp add: generate_mock_data_def)

lemma ids_by_position:
  assumes "\<And>i. i < length ms \<Longrightarrow> id_m (ms ! i) = i"
  shows "map id_m ms = [0..<length ms]"
  using assms by (intro nth_equalityI) simp_all

lemma extract_matches_ids:
  assumes "extract_matches sp = Inr ms"
  shows "map id_m ms = [0..<length ms]"
proof (rule ids_by_position)
  fix i assume "i < length ms"
  then have "match_data_at sp i = Inr (ms ! i)"
    using extract_matches_Inr [OF assms] by simp
  then show "id_m (ms ! i) = i" by (rule match_data_at_Inr(1))
qed

lemma map_sum_Some_Inr: "map_sum id Some x = Inr (Some ms) \<longleftrightarrow> x = Inr ms"
  by (cases x) simp_all

lemma scrape_sportpesa_cases:
  assumes "scrape_sportpesa e = Some ms"
  shows "ms = generate_mock_data \<or> (\<exists>sp. extract_matches sp = Inr ms)"
  using assms
  by (auto simp: scrape_sportpesa_def scrape_body_def scrape_with_requests_def bind_err_def
      map_sum_Some_Inr split: sum.splits if_splits)

text \<open>
  C9. In every dataset \<^verbatim>\<open>scrape_sportpesa\<close> returns, from extraction or from the mock
  fallback, the Match at position \<open>i\<close> has id \<open>i\<close>, so no two matches share an id; the
  mock dataset itself has the ids 0, 1, 2 in this order.
\<close>

theorem ids_are_positions:
  "(scrape_sportpesa e = Some ms \<longrightarrow>
      (\<forall>i<length ms. id_m (ms ! i) = i) \<and> distinct (map id_m ms)) \<and>
   (\<forall>i<length generate_mock_data. id_m (generate_mock_data ! i) = i) \<and>
   distinct (map id_m generate_mock_data)"
proof -
  have m: "map id_m generate_mock_data = [0..<length generate_mock_data]"
    by (simp add: generate_mock_data_def upt_conv_Cons)
  have g: "(\<forall>i<length xs. id_m (xs ! i) = i) \<and> distinct (map id_m xs)"
    if "map id_m xs = [0..<length xs]" for xs
  proof -
    have "id_m (xs ! i) = i" if "i < length xs" for i
      using that \<open>map id_m xs = [0..<length xs]\<close> by (metis add_0 nth_map nth_upt)
    moreover have "distinct (map id_m xs)"
      using \<open>map id_m xs = [0..<length xs]\<close> by simp
    ultimately show ?thesis by blast
  qed
  have "map id_m ms = [0..<length ms]" if "scrape_sportpesa e = Some ms"
    using scrape_sportpesa_cases [OF that] m extract_matches_ids by blast
  then show ?thesis using g m by blast
qed

theorem ids_are_positions_witness:
  "(\<exists>ms. scrape_sportpesa (cloud_env example_page) = Some ms \<and> length ms = 1 \<and>
      id_m (ms ! 0) = 0 \<and> distinct (map id_m ms)) \<and>
   id_m (generate_mock_data ! 2) = 2 \<and> distinct (map id_m generate_mock_data)"
proof -
  obtain ms where ms: "extract_matches example_page = Inr ms"
    using extract_matches_returns [OF markets_parse_example_page] by blast
  have len: "length ms = 1"
    using extract_matches_Inr(1) [OF ms] record_count_example_page by simp
  have s: "scrape_sportpesa (cloud_env example_page) = Some ms"
    by (simp add: scrape_cloud_env ms)
  have m: "(2::nat) < length generate_mock_data"
    by (simp add: generate_mock_data_def)
  note t = ids_are_positions [of "cloud_env example_page" ms]
  have "id_m (ms ! 0) = 0" "distinct (map id_m ms)"
    using t s len by simp_all
  moreover have "id_m (generate_mock_data ! 2) = 2" "distinct (map id_m generate_mock_data)"
    using t m by blast+
  ultimately show ?thesis using s len by blast
qed

section \<open>Fetch failures and the fallback\<close>










section \<open>Looking a match up\<close>





lemma mock_labels:
  "map match_m generate_mock_data =
     [''Manchester United vs Liverpool'', ''Arsenal vs Chelsea'', ''Barcelona vs Real Madrid'']"
  by (simp add: generate_mock_data_def)








text \<open>
  An id that \<^verbatim>\<open>int\<close> parses to a number outside the dataset is answered with 404 at
  once; the labels are not searched for it.
\<close>

lemma get_match_odds_out_of_range:
  assumes "scrape_sportpesa e = Some odds_data" and "py_int match_id = Some k"
    and "\<not> (0 \<le> k \<and> k < int (length odds_data))"
  shows "get_match_odds e match_id = (JError ''Match not found'', 404)"
  using assms by (simp add: get_match_odds_def not_found_def)

section \<open>The predictor: base probabilities and the blend\<close>














section \<open>The predictor: normalisation, perturbation and rounding\<close>
















section \<open>The predictor: the claims\<close>














end
